theory Spec2Isabelle
  imports Main "HOL-Library.Word" "HOL-Library.Sublist"
begin

section \<open>Data model of drivers/of/dtbocfg.c\<close>

text \<open>
  The driver keeps one \<^verbatim>\<open>struct dtbocfg_overlay_item\<close> per configfs directory
  under \<^verbatim>\<open>device-tree/overlays\<close>. A pointer is modelled by an option (\<open>None\<close> is
  \<^verbatim>\<open>NULL\<close>); the buffer behind \<^verbatim>\<open>dtbo\<close> is the list of its bytes; a
  \<^verbatim>\<open>struct device_node*\<close> is a handle. The two \<^verbatim>\<open>int\<close> fields are
  integers, and the one place where a wider value is stored into an \<^verbatim>\<open>int\<close>
  has its wrap-around written out (\<open>int_of_size\<close>).
\<close>

type_synonym byte = "8 word"
type_synonym device_node = nat

record dtbocfg_overlay_item =
  item :: string
  node :: "device_node option"
  id_ov :: int
  dtbo :: "byte list option"
  dtbo_size :: int

text \<open>The error numbers the file returns itself; \<open>ESTATUS r\<close> is the nonzero
  status \<open>r\<close> of a kernel routine, handed on as it is.\<close>

datatype errno = EPERM | ENOMEM | EINVAL | ESTATUS int

text \<open>
  Everything the driver asks of the rest of the kernel is recorded, in order, in a trace.
  Log output (\<^verbatim>\<open>pr_debug\<close>, \<^verbatim>\<open>pr_err\<close>, \<^verbatim>\<open>pr_info\<close>) is not
  recorded.
\<close>

datatype event =
    Unflatten "byte list option" "device_node option"
  | SetDetached device_node
  | Resolve device_node int
  | OverlayCreate device_node int
  | OverlayDestroy int
  | Kmemdup nat bool
  | Kzalloc bool
  | KfreeDtbo
  | KfreeOverlay
  | GroupInit string
  | RegisterSubsystem int
  | RegisterGroup int
  | UnregisterGroup
  | UnregisterSubsystem

text \<open>
  The kernel routines the file calls are not part of it; they are parameters. Each answer
  may depend on the calls made so far (the trace), so a kernel that hands out fresh overlay
  ids, or an allocator that fails now and then, is an instance.
  \<^item> \<open>of_fdt_unflatten_tree\<close> gets the blob pointer and the current value of
    \<^verbatim>\<open>overlay->node\<close> (it is passed \<^verbatim>\<open>&overlay->node\<close>) and gives the value
    of \<^verbatim>\<open>overlay->node\<close> after the call;
  \<^item> \<open>of_resolve_phandles\<close> and \<open>of_overlay_create\<close> give their \<^verbatim>\<open>int\<close> result;
  \<^item> \<open>kmalloc_ok\<close> tells whether an allocation of the given size succeeds,
    \<open>kzalloc_ok\<close> whether the allocation of an item does;
  \<^item> \<open>kstrtoul\<close> gets the text and the base and gives its status and the parsed value;
  \<^item> \<open>configfs_register_subsystem\<close> and \<open>configfs_register_group\<close> give their
    \<^verbatim>\<open>int\<close> result.
\<close>

record kernel_api =
  of_fdt_unflatten_tree :: "event list \<Rightarrow> byte list option \<Rightarrow> device_node option \<Rightarrow> device_node option"
  of_resolve_phandles :: "event list \<Rightarrow> device_node \<Rightarrow> int"
  of_overlay_create :: "event list \<Rightarrow> device_node \<Rightarrow> int"
  kmalloc_ok :: "event list \<Rightarrow> nat \<Rightarrow> bool"
  kzalloc_ok :: "event list \<Rightarrow> bool"
  kstrtoul :: "string \<Rightarrow> nat \<Rightarrow> int \<times> nat"
  configfs_register_subsystem :: "event list \<Rightarrow> int"
  configfs_register_group :: "event list \<Rightarrow> int"

type_synonym sys = "dtbocfg_overlay_item \<times> event list"

subsection \<open>Integer conversions of the C code\<close>

text \<open>\<^verbatim>\<open>overlay->dtbo_size = count\<close> stores a \<^verbatim>\<open>size_t\<close> into an
  \<^verbatim>\<open>int\<close>: the low 32 bits, read as two's complement.\<close>

definition int_of_size :: "nat \<Rightarrow> int" where
  "int_of_size n = (let m = int n mod 2 ^ 32 in if m < 2 ^ 31 then m else m - 2 ^ 32)"

text \<open>\<^verbatim>\<open>overlay->dtbo_size > PAGE_SIZE\<close> compares an \<^verbatim>\<open>int\<close> with an
  \<^verbatim>\<open>unsigned long\<close>: the \<^verbatim>\<open>int\<close> is converted to 64 bits unsigned first.\<close>

definition ulong_of_int :: "int \<Rightarrow> nat" where
  "ulong_of_int i = nat (i mod 2 ^ 64)"

text \<open>\<^verbatim>\<open>return count\<close> in a function of type \<^verbatim>\<open>ssize_t\<close> converts a
  \<^verbatim>\<open>size_t\<close> to 64 bits signed: a count of \<open>2 ^ 63\<close> or more comes back negative.\<close>

definition ssize_of_size :: "nat \<Rightarrow> int" where
  "ssize_of_size n = (let m = int n mod 2 ^ 64 in if m < 2 ^ 63 then m else m - 2 ^ 64)"

text \<open>What the caller of a store gets for \<^verbatim>\<open>return count\<close>: the number of bytes
  taken, or, when the converted value is negative, that value as an error status.\<close>

definition return_count :: "nat \<Rightarrow> errno + nat" where
  "return_count count =
     (if ssize_of_size count < 0 then Inl (ESTATUS (ssize_of_size count))
      else Inr (nat (ssize_of_size count)))"

section \<open>The operations\<close>

subsection \<open>Applying and releasing an overlay\<close>

text \<open>\<^verbatim>\<open>dtbocfg_overlay_item_create\<close> (lines 58-94): unflatten the blob, mark the tree
  detached, resolve its phandles, create the overlay; the id is stored only when
  \<open>of_overlay_create\<close> gives a non-negative result. The result is the function's
  \<^verbatim>\<open>ret_val\<close>: \<open>Inr ()\<close> for 0.\<close>

fun dtbocfg_overlay_item_create :: "kernel_api \<Rightarrow> sys \<Rightarrow> sys \<times> (errno + unit)" where
  "dtbocfg_overlay_item_create K (ov, tr) =
     (let nd = of_fdt_unflatten_tree K tr (dtbo ov) (node ov);
          ov1 = ov\<lparr>node := nd\<rparr>;
          tr1 = tr @ [Unflatten (dtbo ov) nd]
      in case nd of
           None \<Rightarrow> ((ov1, tr1), Inl EINVAL)
         | Some n \<Rightarrow>
             (let tr2 = tr1 @ [SetDetached n];
                  r = of_resolve_phandles K tr2 n;
                  tr3 = tr2 @ [Resolve n r]
              in if r \<noteq> 0 then ((ov1, tr3), Inl (ESTATUS r))
                 else
                   (let c = of_overlay_create K tr3 n;
                        tr4 = tr3 @ [OverlayCreate n c]
                    in if c < 0 then ((ov1, tr4), Inl (ESTATUS c))
                       else ((ov1\<lparr>id_ov := c\<rparr>, tr4), Inr ()))))"

text \<open>\<^verbatim>\<open>dtbocfg_overlay_item_release\<close> (lines 101-107).\<close>

fun dtbocfg_overlay_item_release :: "sys \<Rightarrow> sys" where
  "dtbocfg_overlay_item_release (ov, tr) =
     (if 0 \<le> id_ov ov
      then (ov\<lparr>id_ov := - 1\<rparr>, tr @ [OverlayDestroy (id_ov ov)])
      else (ov, tr))"

subsection \<open>The status attribute\<close>

text \<open>\<^verbatim>\<open>dtbocfg_overlay_item_status_store\<close> (lines 126-146). The result of
  \<open>dtbocfg_overlay_item_create\<close> is dropped, as in the source; after a successful parse
  the function ends with \<^verbatim>\<open>return count\<close>.\<close>

fun dtbocfg_overlay_item_status_store ::
  "kernel_api \<Rightarrow> sys \<Rightarrow> string \<Rightarrow> nat \<Rightarrow> sys \<times> (errno + nat)" where
  "dtbocfg_overlay_item_status_store K (ov, tr) buf count =
     (let (status, val) = kstrtoul K buf 10
      in if status \<noteq> 0 then ((ov, tr), Inl EPERM)
         else if val = 0
         then ((if 0 \<le> id_ov ov then dtbocfg_overlay_item_release (ov, tr) else (ov, tr)),
               return_count count)
         else ((if id_ov ov < 0 then fst (dtbocfg_overlay_item_create K (ov, tr)) else (ov, tr)),
               return_count count))"

text \<open>\<^verbatim>\<open>dtbocfg_overlay_item_status_show\<close> (lines 154-158): the page text and the
  value of \<^verbatim>\<open>sprintf\<close>, the number of characters written.\<close>

fun dtbocfg_overlay_item_status_show :: "sys \<Rightarrow> sys \<times> nat \<times> string" where
  "dtbocfg_overlay_item_status_show (ov, tr) =
     (let page = (if 0 \<le> id_ov ov then ''1'' else ''0'') @ [CHR 0x0A]
      in ((ov, tr), length page, page))"

subsection \<open>The dtbo attribute\<close>

text \<open>Modelled from the spec: \<^verbatim>\<open>kmemdup\<close>, the kernel's allocator, is not in the
  source file. As the spec's \<open>BlobBuffer.replace\<close> has it, it "allocates a new owned copy of
  data", or gives \<^verbatim>\<open>NULL\<close> when the allocation fails.\<close>

definition kmemdup :: "kernel_api \<Rightarrow> event list \<Rightarrow> byte list \<Rightarrow> byte list option" where
  "kmemdup K tr data = (if kmalloc_ok K tr (length data) then Some data else None)"

text \<open>\<^verbatim>\<open>dtbocfg_overlay_item_dtbo_store\<close> (lines 167-188). The argument \<open>data\<close> is
  the \<^verbatim>\<open>count\<close> bytes at \<^verbatim>\<open>buf\<close>, so \<^verbatim>\<open>count\<close> is \<open>length data\<close>.\<close>

fun dtbocfg_overlay_item_dtbo_store ::
  "kernel_api \<Rightarrow> sys \<Rightarrow> byte list \<Rightarrow> sys \<times> (errno + nat)" where
  "dtbocfg_overlay_item_dtbo_store K (ov, tr) data =
     (let duplicate = (\<lambda>(ov1, tr1).
            (let copy = kmemdup K tr1 data;
                 tr2 = tr1 @ [Kmemdup (length data) (copy \<noteq> None)]
             in case copy of
                  None \<Rightarrow> ((ov1\<lparr>dtbo := None, dtbo_size := 0\<rparr>, tr2), Inl ENOMEM)
                | Some d \<Rightarrow>
                    ((ov1\<lparr>dtbo := Some d, dtbo_size := int_of_size (length data)\<rparr>, tr2),
                     return_count (length data))))
      in if 0 < dtbo_size ov
         then (if 0 \<le> id_ov ov then ((ov, tr), Inl EPERM)
               else duplicate (ov\<lparr>dtbo := None, dtbo_size := 0\<rparr>, tr @ [KfreeDtbo]))
         else duplicate (ov, tr))"

text \<open>\<^verbatim>\<open>memcpy(buf, src, n)\<close> on a page: the first \<open>n\<close> bytes are replaced.\<close>

definition memcpy :: "byte list \<Rightarrow> byte list \<Rightarrow> nat \<Rightarrow> byte list" where
  "memcpy buf src n = take n src @ drop n buf"

text \<open>\<^verbatim>\<open>dtbocfg_overlay_item_dtbo_show\<close> (lines 196-210). \<open>PAGE_SIZE\<close> is a
  parameter; \<open>buf\<close> is the page to fill (\<open>None\<close> for \<^verbatim>\<open>NULL\<close>). The result is the
  returned size and the page afterwards.\<close>

fun dtbocfg_overlay_item_dtbo_show ::
  "nat \<Rightarrow> sys \<Rightarrow> byte list option \<Rightarrow> sys \<times> (errno + int) \<times> byte list option" where
  "dtbocfg_overlay_item_dtbo_show PAGE_SIZE (ov, tr) buf =
     (case dtbo ov of
        None \<Rightarrow> ((ov, tr), Inr 0, buf)
      | Some src \<Rightarrow>
          if PAGE_SIZE < ulong_of_int (dtbo_size ov) then ((ov, tr), Inl EINVAL, buf)
          else ((ov, tr), Inr (dtbo_size ov),
                map_option (\<lambda>page. memcpy page src (ulong_of_int (dtbo_size ov))) buf))"

subsection \<open>Creating and dropping items\<close>

text \<open>\<^verbatim>\<open>dtbocfg_overlay_group_make_item\<close> (lines 265-281); \<^verbatim>\<open>kzalloc\<close> zeroes
  the structure, so \<^verbatim>\<open>node\<close> starts as \<^verbatim>\<open>NULL\<close>.\<close>

definition empty_item :: "string \<Rightarrow> dtbocfg_overlay_item" where
  "empty_item name = \<lparr>item = name, node = None, id_ov = - 1, dtbo = None, dtbo_size = 0\<rparr>"

definition dtbocfg_overlay_group_make_item ::
  "kernel_api \<Rightarrow> event list \<Rightarrow> string \<Rightarrow> event list \<times> (errno + dtbocfg_overlay_item)" where
  "dtbocfg_overlay_group_make_item K tr name =
     (if \<not> kzalloc_ok K tr then (tr @ [Kzalloc False], Inl ENOMEM)
      else (tr @ [Kzalloc True], Inr (empty_item name)))"

text \<open>\<^verbatim>\<open>dtbocfg_overlay_release\<close> (lines 229-244), the \<^verbatim>\<open>release\<close> operation of the
  item type: configfs runs it when the last reference to a dropped item is put
  (\<^verbatim>\<open>dtbocfg_overlay_group_drop_item\<close>, lines 288-295, puts the reference of the
  directory). The item no longer exists afterwards; the result holds its fields as they were
  when \<^verbatim>\<open>kfree(overlay)\<close> was reached, and the trace.\<close>

fun dtbocfg_overlay_release :: "sys \<Rightarrow> sys" where
  "dtbocfg_overlay_release (ov, tr) =
     (let (ov1, tr1) = dtbocfg_overlay_item_release (ov, tr);
          (ov2, tr2) =
            (if dtbo ov1 \<noteq> None
             then (ov1\<lparr>dtbo := None, dtbo_size := 0\<rparr>, tr1 @ [KfreeDtbo])
             else (ov1, tr1))
      in (ov2, tr2 @ [KfreeOverlay]))"

subsection \<open>Module initialisation\<close>

text \<open>\<^verbatim>\<open>dtbocfg_module_init\<close> (lines 337-365) and \<^verbatim>\<open>dtbocfg_module_exit\<close>
  (lines 370-374): the trace afterwards and the returned value.\<close>

definition dtbocfg_module_init :: "kernel_api \<Rightarrow> event list \<Rightarrow> event list \<times> int" where
  "dtbocfg_module_init K tr =
     (let tr1 = tr @ [GroupInit ''device-tree'', GroupInit ''overlays''];
          retval = configfs_register_subsystem K tr1;
          tr2 = tr1 @ [RegisterSubsystem retval]
      in if retval \<noteq> 0 then (tr2, retval)
         else
           (let retval = configfs_register_group K tr2;
                tr3 = tr2 @ [RegisterGroup retval]
            in if retval \<noteq> 0 then (tr3 @ [UnregisterSubsystem], retval)
               else (tr3, 0)))"

definition dtbocfg_module_exit :: "event list \<Rightarrow> event list" where
  "dtbocfg_module_exit tr = tr @ [UnregisterGroup, UnregisterSubsystem]"

section \<open>Sequences of operations and what the trace tells\<close>

text \<open>The four attribute operations a client can issue against an item, and a run of them;
  \<open>P\<close> is the page size.\<close>

datatype op =
    Status_store string nat
  | Status_show
  | Dtbo_store "byte list"
  | Dtbo_show "byte list option"

fun exec_op :: "kernel_api \<Rightarrow> nat \<Rightarrow> sys \<Rightarrow> op \<Rightarrow> sys" where
  "exec_op K P s (Status_store buf count) = fst (dtbocfg_overlay_item_status_store K s buf count)"
| "exec_op K P s Status_show = fst (dtbocfg_overlay_item_status_show s)"
| "exec_op K P s (Dtbo_store data) = fst (dtbocfg_overlay_item_dtbo_store K s data)"
| "exec_op K P s (Dtbo_show buf) = fst (dtbocfg_overlay_item_dtbo_show P s buf)"

definition run :: "kernel_api \<Rightarrow> nat \<Rightarrow> sys \<Rightarrow> op list \<Rightarrow> sys" where
  "run K P s ops = foldl (exec_op K P) s ops"

text \<open>The ids of the overlays created with success, and the ids handed to
  \<^verbatim>\<open>of_overlay_destroy\<close>, each in the order of the trace.\<close>

fun applied :: "event list \<Rightarrow> int list" where
  "applied [] = []"
| "applied (OverlayCreate n c # tr) = (if 0 \<le> c then c # applied tr else applied tr)"
| "applied (e # tr) = applied tr"

fun released :: "event list \<Rightarrow> int list" where
  "released [] = []"
| "released (OverlayDestroy k # tr) = k # released tr"
| "released (e # tr) = released tr"

text \<open>The number of calls of \<^verbatim>\<open>kmemdup\<close> in a trace.\<close>

fun allocations :: "event list \<Rightarrow> nat" where
  "allocations [] = 0"
| "allocations (Kmemdup n ok # tr) = Suc (allocations tr)"
| "allocations (e # tr) = allocations tr"

text \<open>The item's id and the trace agree: every overlay created has been destroyed, but
  the one whose id the item holds.\<close>

definition lifecycle_inv :: "sys \<Rightarrow> bool" where
  "lifecycle_inv s =
     (applied (snd s) = released (snd s) @ (if 0 \<le> id_ov (fst s) then [id_ov (fst s)] else []))"

text \<open>The spec's invariant of the blob buffer, \<open>length == size(bytes)\<close>: the size
  field is the number of bytes stored (and 0 with no buffer).\<close>

definition blob_length :: "dtbocfg_overlay_item \<Rightarrow> nat" where
  "blob_length ov = (case dtbo ov of None \<Rightarrow> 0 | Some b \<Rightarrow> length b)"

definition blob_inv :: "dtbocfg_overlay_item \<Rightarrow> bool" where
  "blob_inv ov = (dtbo_size ov = int (blob_length ov) \<and> blob_length ov < 2 ^ 31)"

text \<open>What a trace leaves registered with configfs: the subsystem, and the group.\<close>

fun registered :: "event list \<Rightarrow> bool \<times> bool \<Rightarrow> bool \<times> bool" where
  "registered [] st = st"
| "registered (RegisterSubsystem r # tr) (sub, grp) = registered tr (sub \<or> r = 0, grp)"
| "registered (RegisterGroup r # tr) (sub, grp) = registered tr (sub, grp \<or> r = 0)"
| "registered (UnregisterSubsystem # tr) (sub, grp) = registered tr (False, grp)"
| "registered (UnregisterGroup # tr) (sub, grp) = registered tr (sub, False)"
| "registered (e # tr) st = registered tr st"

section \<open>Sample kernels\<close>

text \<open>Instances of the kernel parameters, used to run the model on concrete inputs.
  \<open>demo_kstrtoul\<close> reads decimal digits with an optional final newline.\<close>

fun digits_value :: "string \<Rightarrow> nat \<Rightarrow> nat option" where
  "digits_value [] acc = Some acc"
| "digits_value (c # cs) acc =
     (if 48 \<le> (of_char c :: nat) \<and> (of_char c :: nat) \<le> 57
      then digits_value cs (10 * acc + (of_char c - 48))
      else None)"

definition demo_kstrtoul :: "string \<Rightarrow> nat \<Rightarrow> int \<times> nat" where
  "demo_kstrtoul s base =
     (let t = (if s \<noteq> [] \<and> last s = CHR 0x0A then butlast s else s)
      in if t = [] then (- 22, 0)
         else (case digits_value t 0 of
                 None \<Rightarrow> (- 22, 0)
               | Some v \<Rightarrow> if v < 2 ^ 64 then (0, v) else (- 34, 0)))"

text \<open>\<open>demo_kernel\<close> accepts a blob that starts with the byte \<open>0xD0\<close> and leaves
  \<^verbatim>\<open>overlay->node\<close> as it is otherwise; it numbers the overlays it creates.\<close>

definition demo_kernel :: kernel_api where
  "demo_kernel =
     \<lparr>of_fdt_unflatten_tree =
        (\<lambda>tr blob nd. case blob of
                         None \<Rightarrow> nd
                       | Some bs \<Rightarrow> if bs \<noteq> [] \<and> hd bs = 0xD0 then Some 1 else nd),
      of_resolve_phandles = (\<lambda>tr n. 0),
      of_overlay_create = (\<lambda>tr n. int (length (applied tr))),
      kmalloc_ok = (\<lambda>tr n. True),
      kzalloc_ok = (\<lambda>tr. True),
      kstrtoul = demo_kstrtoul,
      configfs_register_subsystem = (\<lambda>tr. 0),
      configfs_register_group = (\<lambda>tr. 0)\<rparr>"

text \<open>\<open>busy_kernel\<close> refuses every overlay with the status -16;
  \<open>flaky_kernel\<close> fails the second allocation of a blob;
  \<open>no_group_kernel\<close> fails to register the group with the status -12.\<close>

definition busy_kernel :: kernel_api where
  "busy_kernel = demo_kernel\<lparr>of_overlay_create := (\<lambda>tr n. - 16)\<rparr>"

definition flaky_kernel :: kernel_api where
  "flaky_kernel = demo_kernel\<lparr>kmalloc_ok := (\<lambda>tr n. allocations tr \<noteq> 1)\<rparr>"

definition no_group_kernel :: kernel_api where
  "no_group_kernel = demo_kernel\<lparr>configfs_register_group := (\<lambda>tr. - 12)\<rparr>"

text \<open>Sample items: one with a blob stored, one with that blob applied under the id 7;
  and the run that ends with an id held and no blob: a blob is applied and released, the
  next store finds no memory, and the next enable meets the tree of the first blob.\<close>

definition sample_blob :: "byte list" where
  "sample_blob = [0xD0, 0x0D, 0xFE, 0xED]"

definition loaded_item :: "string \<Rightarrow> dtbocfg_overlay_item" where
  "loaded_item name = (empty_item name)\<lparr>dtbo := Some sample_blob, dtbo_size := 4\<rparr>"

definition applied_item :: "string \<Rightarrow> dtbocfg_overlay_item" where
  "applied_item name = (loaded_item name)\<lparr>node := Some 1, id_ov := 7\<rparr>"

definition stale_ops :: "op list" where
  "stale_ops =
     [Dtbo_store sample_blob, Status_store ''1'' 1, Status_store ''0'' 1,
      Dtbo_store [0xD0, 0x0D], Status_store ''1'' 1]"

section \<open>Facts about the conversions, the trace and the invariants\<close>

lemma int_of_size_small: "n < 2 ^ 31 \<Longrightarrow> int_of_size n = int n"
  by (simp add: int_of_size_def Let_def)

lemma ulong_of_int_nat: "n < 2 ^ 31 \<Longrightarrow> ulong_of_int (int n) = n"
  by (simp add: ulong_of_int_def)

lemma ssize_of_size_small: "n < 2 ^ 63 \<Longrightarrow> ssize_of_size n = int n"
  by (simp add: ssize_of_size_def Let_def)

lemma return_count_small: "count < 2 ^ 63 \<Longrightarrow> return_count count = Inr count"
  by (simp add: return_count_def ssize_of_size_small)

text \<open>A count of \<open>2 ^ 63\<close> or more, up to the largest \<^verbatim>\<open>size_t\<close>, is not returned
  as a count.\<close>

lemma return_count_large:
  assumes "2 ^ 63 \<le> count" and "count < 2 ^ 64"
  shows "return_count count = Inl (ESTATUS (int count - 2 ^ 64))"
  using assms by (simp add: return_count_def ssize_of_size_def Let_def)

lemma applied_append: "applied (xs @ ys) = applied xs @ applied ys"
  by (induction xs rule: applied.induct) auto

lemma released_append: "released (xs @ ys) = released xs @ released ys"
  by (induction xs rule: released.induct) auto

lemma registered_append: "registered (xs @ ys) st = registered ys (registered xs st)"
  by (induction xs st rule: registered.induct) simp_all

text \<open>The two observers give back the state they were given.\<close>

lemma dtbo_show_state: "fst (dtbocfg_overlay_item_dtbo_show P s buf) = s"
  by (cases s) (simp split: option.splits)

lemma status_show_state: "fst (dtbocfg_overlay_item_status_show s) = s"
  by (cases s) (simp add: Let_def)

subsection \<open>The id and the trace agree along every run\<close>

lemma create_lifecycle:
  assumes "lifecycle_inv (ov, tr)" and "id_ov ov < 0"
  shows "lifecycle_inv (fst (dtbocfg_overlay_item_create K (ov, tr)))"
  using assms
  by (auto simp: lifecycle_inv_def Let_def applied_append released_append split: option.splits)

lemma release_lifecycle:
  assumes "lifecycle_inv (ov, tr)"
  shows "lifecycle_inv (dtbocfg_overlay_item_release (ov, tr))"
  using assms
  by (auto simp: lifecycle_inv_def applied_append released_append)

lemma status_store_lifecycle:
  assumes "lifecycle_inv s"
  shows "lifecycle_inv (fst (dtbocfg_overlay_item_status_store K s buf count))"
proof (cases s)
  case (Pair ov tr)
  show ?thesis
  proof (cases "kstrtoul K buf 10")
    case kp: (Pair status v)
    from assms Pair have inv: "lifecycle_inv (ov, tr)" by simp
    show ?thesis
      using inv create_lifecycle[of ov tr K] release_lifecycle[of ov tr]
      unfolding Pair
      by (simp add: kp del: dtbocfg_overlay_item_create.simps dtbocfg_overlay_item_release.simps)
  qed
qed

lemma dtbo_store_trace:
  "applied (snd (fst (dtbocfg_overlay_item_dtbo_store K (ov, tr) data))) = applied tr \<and>
   released (snd (fst (dtbocfg_overlay_item_dtbo_store K (ov, tr) data))) = released tr \<and>
   id_ov (fst (fst (dtbocfg_overlay_item_dtbo_store K (ov, tr) data))) = id_ov ov"
  by (simp add: Let_def applied_append released_append split: option.splits)

lemma dtbo_store_lifecycle:
  assumes "lifecycle_inv s"
  shows "lifecycle_inv (fst (dtbocfg_overlay_item_dtbo_store K s data))"
proof (cases s)
  case (Pair ov tr)
  with assms show ?thesis
    unfolding lifecycle_inv_def Pair using dtbo_store_trace[of K ov tr data]
    by (simp del: dtbocfg_overlay_item_dtbo_store.simps)
qed

lemma exec_op_lifecycle:
  assumes "lifecycle_inv s"
  shows "lifecycle_inv (exec_op K P s x)"
  using assms
  by (cases x)
     (simp_all add: status_store_lifecycle dtbo_store_lifecycle dtbo_show_state status_show_state)

lemma run_lifecycle:
  assumes "lifecycle_inv s"
  shows "lifecycle_inv (run K P s ops)"
  using assms unfolding run_def
  by (induction ops arbitrary: s) (simp_all add: exec_op_lifecycle)

lemma empty_item_lifecycle: "lifecycle_inv (empty_item name, [])"
  by (simp add: lifecycle_inv_def empty_item_def)

subsection \<open>The size field is the length of the blob along every run\<close>

text \<open>As long as no blob of 2 GiB or more is written, the size field never wraps.\<close>

lemma dtbo_store_success:
  assumes "dtbocfg_overlay_item_dtbo_store K (ov, tr) b = (s', Inr n)" and "length b < 2 ^ 63"
  shows "n = length b \<and> dtbo (fst s') = Some b \<and> dtbo_size (fst s') = int_of_size (length b)"
  using assms
  by (auto simp: Let_def kmemdup_def return_count_small split: if_splits option.splits)

lemma store_blob_inv:
  assumes "length data < 2 ^ 31"
  shows "blob_inv (fst (fst (dtbocfg_overlay_item_dtbo_store K (ov, tr) data))) \<or>
         fst (dtbocfg_overlay_item_dtbo_store K (ov, tr) data) = (ov, tr)"
  using assms
  by (auto simp: Let_def kmemdup_def blob_inv_def blob_length_def int_of_size_small
      split: option.splits)

lemma status_store_blob:
  "dtbo (fst (fst (dtbocfg_overlay_item_status_store K (ov, tr) buf count))) = dtbo ov \<and>
   dtbo_size (fst (fst (dtbocfg_overlay_item_status_store K (ov, tr) buf count))) = dtbo_size ov"
  by (cases "kstrtoul K buf 10") (auto simp: Let_def split: option.splits)

lemma exec_op_blob_inv:
  assumes "blob_inv (fst s)" and "\<And>data. x = Dtbo_store data \<Longrightarrow> length data < 2 ^ 31"
  shows "blob_inv (fst (exec_op K P s x))"
proof (cases s)
  case (Pair ov tr)
  show ?thesis
  proof (cases x)
    case (Status_store buf count)
    then show ?thesis
      using assms(1) status_store_blob[of K ov tr buf count] unfolding Pair
      by (simp add: blob_inv_def blob_length_def del: dtbocfg_overlay_item_status_store.simps)
  next
    case Status_show
    then show ?thesis using assms(1) by (simp add: status_show_state)
  next
    case (Dtbo_store data)
    then show ?thesis
      using assms store_blob_inv[of data K ov tr] unfolding Pair
      by (auto simp del: dtbocfg_overlay_item_dtbo_store.simps)
  next
    case (Dtbo_show buf)
    then show ?thesis using assms(1) by (simp add: dtbo_show_state)
  qed
qed

lemma run_blob_inv:
  assumes "blob_inv (fst s)" and "\<And>data. Dtbo_store data \<in> set ops \<Longrightarrow> length data < 2 ^ 31"
  shows "blob_inv (fst (run K P s ops))"
  using assms unfolding run_def
proof (induction ops arbitrary: s)
  case Nil
  then show ?case by simp
next
  case (Cons x ops)
  have "blob_inv (fst (exec_op K P s x))"
    by (rule exec_op_blob_inv) (use Cons.prems in auto)
  then show ?case using Cons by simp
qed

lemma empty_item_blob_inv: "blob_inv (empty_item name)"
  by (simp add: blob_inv_def blob_length_def empty_item_def)

subsection \<open>Destroying an item\<close>

lemma release_trace:
  "snd (dtbocfg_overlay_release (ov, tr)) =
     tr @ (if 0 \<le> id_ov ov then [OverlayDestroy (id_ov ov)] else [])
        @ (if dtbo ov \<noteq> None then [KfreeDtbo] else []) @ [KfreeOverlay]"
  by (simp add: Let_def)

lemma release_fields:
  "id_ov (fst (dtbocfg_overlay_release (ov, tr))) = (if 0 \<le> id_ov ov then - 1 else id_ov ov) \<and>
   dtbo (fst (dtbocfg_overlay_release (ov, tr))) = None"
  by (simp add: Let_def)

lemma release_balances:
  assumes "lifecycle_inv s"
  shows "released (snd (dtbocfg_overlay_release s)) = applied (snd (dtbocfg_overlay_release s))"
proof (cases s)
  case (Pair ov tr)
  with assms show ?thesis
    unfolding Pair release_trace
    by (simp add: lifecycle_inv_def applied_append released_append)
qed

subsection \<open>Two sample runs\<close>

lemma applied_run_state:
  "run demo_kernel 4096 (empty_item ''fpga0'', []) [Dtbo_store sample_blob, Status_store ''1'' 1] =
     (\<lparr>item = ''fpga0'', node = Some 1, id_ov = 0, dtbo = Some sample_blob, dtbo_size = 4\<rparr>,
      [Kmemdup 4 True, Unflatten (Some sample_blob) (Some 1), SetDetached 1, Resolve 1 0,
       OverlayCreate 1 0])"
  by (simp add: run_def demo_kernel_def demo_kstrtoul_def
      empty_item_def sample_blob_def kmemdup_def int_of_size_def Let_def)

lemma stale_run_state:
  "run flaky_kernel 4096 (empty_item ''fpga0'', []) stale_ops =
     (\<lparr>item = ''fpga0'', node = Some 1, id_ov = 1, dtbo = None, dtbo_size = 0\<rparr>,
      [Kmemdup 4 True, Unflatten (Some sample_blob) (Some 1), SetDetached 1, Resolve 1 0,
       OverlayCreate 1 0, OverlayDestroy 0, KfreeDtbo, Kmemdup 2 False,
       Unflatten None (Some 1), SetDetached 1, Resolve 1 0, OverlayCreate 1 1])"
  by (simp add: run_def stale_ops_def flaky_kernel_def demo_kernel_def demo_kstrtoul_def
      empty_item_def sample_blob_def kmemdup_def int_of_size_def applied_append Let_def)

text \<open>A write of zero to the status with the largest \<^verbatim>\<open>size_t\<close> as its count: the
  item is untouched and the value returned is -1.\<close>

lemma status_store_size_max:
  "dtbocfg_overlay_item_status_store demo_kernel (empty_item ''fpga0'', []) ''0''
     18446744073709551615 = ((empty_item ''fpga0'', []), Inl (ESTATUS (- 1)))"
  by (simp add: demo_kernel_def demo_kstrtoul_def empty_item_def return_count_def
      ssize_of_size_def Let_def)

section \<open>The claims\<close>

subsection \<open>C1: enabling an item that holds no blob\<close>

text \<open>A new item has no blob. Writing \<open>1\<close> to its status is answered with the byte
  count, the answer of a successful write, not with an error: the sample kernel finds no
  tree, \<open>dtbocfg_overlay_item_create\<close> fails, and the failure is dropped.\<close>

theorem C1_counterexample:
  "dtbo (empty_item ''fpga0'') = None \<and>
   dtbocfg_overlay_item_status_store demo_kernel (empty_item ''fpga0'', []) ''1'' 1 =
     ((empty_item ''fpga0'', [Unflatten None None]), Inr 1)"
  by (simp add: demo_kernel_def demo_kstrtoul_def empty_item_def return_count_small)

text \<open>Claim C1, as the code has it. For every item with no blob stored and no id held,
  writing a nonzero number to the status does not fail: it returns the byte count, for every
  byte count below \<open>2 ^ 63\<close> (the counts an \<^verbatim>\<open>ssize_t\<close> can return). The blob
  stays absent and the size field is untouched. When the kernel gives no tree for the absent
  blob, the id stays absent and the status still reads \<open>0\<close>.\<close>

theorem C1_status_store_empty:
  assumes "dtbo ov = None" and "id_ov ov < 0"
    and "kstrtoul K buf 10 = (0, v)" and "v \<noteq> 0" and "count < 2 ^ 63"
    and "dtbocfg_overlay_item_status_store K (ov, tr) buf count = (s', r)"
  shows "r = Inr count \<and> dtbo (fst s') = None \<and> dtbo_size (fst s') = dtbo_size ov \<and>
         (of_fdt_unflatten_tree K tr None (node ov) = None \<longrightarrow>
            id_ov (fst s') = id_ov ov \<and>
            snd (snd (dtbocfg_overlay_item_status_show s')) = [CHR ''0'', CHR 0x0A])"
  using assms
  by (auto simp: Let_def return_count_small split: option.splits if_splits)

theorem C1_status_store_empty_witness:
  "dtbo (empty_item ''fpga0'') = None \<and> id_ov (empty_item ''fpga0'') < 0 \<and>
   kstrtoul demo_kernel ''1'' 10 = (0, 1) \<and> (1 :: nat) < 2 ^ 63 \<and>
   snd (dtbocfg_overlay_item_status_store demo_kernel (empty_item ''fpga0'', []) ''1'' 1) = Inr 1 \<and>
   dtbo (fst (fst (dtbocfg_overlay_item_status_store demo_kernel (empty_item ''fpga0'', []) ''1'' 1)))
     = None \<and>
   id_ov (fst (fst (dtbocfg_overlay_item_status_store demo_kernel (empty_item ''fpga0'', []) ''1'' 1)))
     = - 1 \<and>
   snd (snd (dtbocfg_overlay_item_status_show
     (fst (dtbocfg_overlay_item_status_store demo_kernel (empty_item ''fpga0'', []) ''1'' 1))))
     = [CHR ''0'', CHR 0x0A]"
  using C1_status_store_empty [of "empty_item ''fpga0''" demo_kernel "''1''" 1 1 "[]"
      "fst (dtbocfg_overlay_item_status_store demo_kernel (empty_item ''fpga0'', []) ''1'' 1)"
      "snd (dtbocfg_overlay_item_status_store demo_kernel (empty_item ''fpga0'', []) ''1'' 1)"]
  by (simp add: demo_kernel_def demo_kstrtoul_def empty_item_def return_count_small)

subsection \<open>C2: a failed apply\<close>

text \<open>An item holds a blob and no id; the kernel refuses the overlay with the status -16.
  \<open>dtbocfg_overlay_item_create\<close> gives that status, and the write to the status attribute
  still returns the byte count.\<close>

theorem C2_counterexample:
  "dtbo (loaded_item ''fpga0'') = Some sample_blob \<and> id_ov (loaded_item ''fpga0'') < 0 \<and>
   snd (dtbocfg_overlay_item_create busy_kernel (loaded_item ''fpga0'', [])) = Inl (ESTATUS (- 16)) \<and>
   snd (dtbocfg_overlay_item_status_store busy_kernel (loaded_item ''fpga0'', []) ''1'' 1) = Inr 1"
  by (simp add: busy_kernel_def demo_kernel_def demo_kstrtoul_def loaded_item_def empty_item_def
      sample_blob_def Let_def return_count_small)

text \<open>Claim C2, as the code has it. For every item that holds a blob and no id, when the
  apply fails during a write of a nonzero number to the status, the id stays absent and the
  blob and its size are unchanged, and the write returns the byte count, for every byte count
  below \<open>2 ^ 63\<close>: the failure shows only in the status, which still reads \<open>0\<close>.\<close>

theorem C2_apply_failure_silent:
  assumes "dtbo ov = Some b" and "id_ov ov < 0"
    and "kstrtoul K buf 10 = (0, v)" and "v \<noteq> 0" and "count < 2 ^ 63"
    and "snd (dtbocfg_overlay_item_create K (ov, tr)) = Inl e"
    and "dtbocfg_overlay_item_status_store K (ov, tr) buf count = (s', r)"
  shows "r = Inr count \<and> id_ov (fst s') = id_ov ov \<and> dtbo (fst s') = Some b \<and>
         dtbo_size (fst s') = dtbo_size ov \<and>
         snd (snd (dtbocfg_overlay_item_status_show s')) = [CHR ''0'', CHR 0x0A]"
  using assms
  by (auto simp: Let_def return_count_small split: option.splits if_splits)

theorem C2_apply_failure_silent_witness:
  "dtbo (loaded_item ''fpga0'') = Some sample_blob \<and> id_ov (loaded_item ''fpga0'') < 0 \<and>
   kstrtoul busy_kernel ''1'' 10 = (0, 1) \<and> (1 :: nat) < 2 ^ 63 \<and>
   snd (dtbocfg_overlay_item_create busy_kernel (loaded_item ''fpga0'', [])) = Inl (ESTATUS (- 16)) \<and>
   snd (dtbocfg_overlay_item_status_store busy_kernel (loaded_item ''fpga0'', []) ''1'' 1) = Inr 1 \<and>
   id_ov (fst (fst (dtbocfg_overlay_item_status_store busy_kernel (loaded_item ''fpga0'', []) ''1'' 1)))
     = - 1 \<and>
   dtbo (fst (fst (dtbocfg_overlay_item_status_store busy_kernel (loaded_item ''fpga0'', []) ''1'' 1)))
     = Some sample_blob"
  using C2_apply_failure_silent [of "loaded_item ''fpga0''" sample_blob busy_kernel "''1''" 1 1 "[]"
      "ESTATUS (- 16)"
      "fst (dtbocfg_overlay_item_status_store busy_kernel (loaded_item ''fpga0'', []) ''1'' 1)"
      "snd (dtbocfg_overlay_item_status_store busy_kernel (loaded_item ''fpga0'', []) ''1'' 1)"]
  by (simp add: busy_kernel_def demo_kernel_def demo_kstrtoul_def loaded_item_def empty_item_def
      sample_blob_def Let_def return_count_small)

subsection \<open>C3: storing a blob while an id is held\<close>

text \<open>The run \<open>stale_ops\<close> ends with an id held and no blob stored. The store that
  follows is not refused: it returns the byte count and the item holds the new blob.\<close>

theorem C3_counterexample:
  "0 \<le> id_ov (fst (run flaky_kernel 4096 (empty_item ''fpga0'', []) stale_ops)) \<and>
   dtbo (fst (run flaky_kernel 4096 (empty_item ''fpga0'', []) stale_ops)) = None \<and>
   snd (dtbocfg_overlay_item_dtbo_store flaky_kernel
          (run flaky_kernel 4096 (empty_item ''fpga0'', []) stale_ops) sample_blob) = Inr 4 \<and>
   dtbo (fst (fst (dtbocfg_overlay_item_dtbo_store flaky_kernel
          (run flaky_kernel 4096 (empty_item ''fpga0'', []) stale_ops) sample_blob)))
     = Some sample_blob"
  unfolding stale_run_state
  by (simp add: flaky_kernel_def demo_kernel_def sample_blob_def kmemdup_def int_of_size_def Let_def
      return_count_small)

text \<open>Claim C3, as the code has it. For every item that holds an id and whose size field
  is positive (a blob of at least one byte is stored), a store fails with \<open>EPERM\<close> for
  every input, and the item, its blob included, and the trace are unchanged.\<close>

theorem C3_store_busy:
  assumes "0 \<le> id_ov ov" and "0 < dtbo_size ov"
  shows "dtbocfg_overlay_item_dtbo_store K (ov, tr) data = ((ov, tr), Inl EPERM)"
  using assms by simp

theorem C3_store_busy_witness:
  "0 \<le> id_ov (applied_item ''fpga0'') \<and> 0 < dtbo_size (applied_item ''fpga0'') \<and>
   dtbocfg_overlay_item_dtbo_store demo_kernel (applied_item ''fpga0'', []) [0x01, 0x02] =
     ((applied_item ''fpga0'', []), Inl EPERM)"
  using C3_store_busy [of "applied_item ''fpga0''" demo_kernel "[]" "[0x01, 0x02]"]
  by (simp add: applied_item_def loaded_item_def empty_item_def)

subsection \<open>C4: store, then read\<close>

text \<open>Claim C4. For every byte sequence \<open>b\<close> of at most \<open>PAGE_SIZE\<close> bytes (a page
  size below 2 GiB), a successful store of \<open>b\<close> returns \<open>length b\<close>, and the read that
  follows leaves the item as it is, returns \<open>length b\<close> and puts exactly \<open>b\<close> at the
  start of the page. The store does succeed for an item that holds no id when the allocation
  succeeds.\<close>

theorem C4_store_read_roundtrip:
  assumes "length b \<le> PAGE_SIZE" and "PAGE_SIZE < 2 ^ 31"
    and "dtbocfg_overlay_item_dtbo_store K (ov, tr) b = (s', Inr n)"
  shows "n = length b \<and>
         dtbocfg_overlay_item_dtbo_show PAGE_SIZE s' buf =
           (s', Inr (int (length b)), map_option (\<lambda>page. b @ drop (length b) page) buf) \<and>
         (id_ov ov < 0 \<longrightarrow>
          kmalloc_ok K (if 0 < dtbo_size ov then tr @ [KfreeDtbo] else tr) (length b) \<longrightarrow>
            snd (dtbocfg_overlay_item_dtbo_store K (ov, tr) b) = Inr (length b))"
proof -
  from assms(1,2) have small: "length b < 2 ^ 31" by simp
  then have fits: "length b < 2 ^ 63" by simp
  obtain ov' tr' where s': "s' = (ov', tr')" by (cases s')
  from dtbo_store_success[OF assms(3) fits] s' small
  have st: "n = length b" "dtbo ov' = Some b" "dtbo_size ov' = int (length b)"
    by (simp_all add: int_of_size_small)
  have "dtbocfg_overlay_item_dtbo_show PAGE_SIZE s' buf =
          (s', Inr (int (length b)), map_option (\<lambda>page. b @ drop (length b) page) buf)"
    using st assms(1) small by (simp add: s' ulong_of_int_nat memcpy_def)
  moreover have "id_ov ov < 0 \<longrightarrow>
          kmalloc_ok K (if 0 < dtbo_size ov then tr @ [KfreeDtbo] else tr) (length b) \<longrightarrow>
            snd (dtbocfg_overlay_item_dtbo_store K (ov, tr) b) = Inr (length b)"
    using fits by (simp add: Let_def kmemdup_def return_count_small)
  ultimately show ?thesis using st(1) by simp
qed

theorem C4_store_read_roundtrip_witness:
  "length sample_blob \<le> 4096 \<and> (4096 :: nat) < 2 ^ 31 \<and>
   snd (dtbocfg_overlay_item_dtbo_store demo_kernel (empty_item ''fpga0'', []) sample_blob) = Inr 4 \<and>
   dtbocfg_overlay_item_dtbo_show 4096
      (fst (dtbocfg_overlay_item_dtbo_store demo_kernel (empty_item ''fpga0'', []) sample_blob))
      (Some [0, 0, 0, 0, 0, 0]) =
     (fst (dtbocfg_overlay_item_dtbo_store demo_kernel (empty_item ''fpga0'', []) sample_blob),
      Inr 4, Some [0xD0, 0x0D, 0xFE, 0xED, 0, 0])"
  using C4_store_read_roundtrip [of sample_blob 4096 demo_kernel "empty_item ''fpga0''" "[]"
      "fst (dtbocfg_overlay_item_dtbo_store demo_kernel (empty_item ''fpga0'', []) sample_blob)"
      4 "Some [0, 0, 0, 0, 0, 0]"]
  by (simp add: demo_kernel_def empty_item_def sample_blob_def kmemdup_def int_of_size_def Let_def
      return_count_small)

subsection \<open>C5: reading more than a page\<close>

text \<open>Claim C5. For every item whose size field is the length of its blob, a read fails
  with \<open>EINVAL\<close> exactly when the blob is longer than \<open>PAGE_SIZE\<close>; a blob that fits is
  returned whole, with its length; and with no blob stored the read succeeds with 0 bytes and
  leaves the page alone.\<close>

theorem C5_read_too_large_iff:
  assumes "blob_inv ov"
  shows "(fst (snd (dtbocfg_overlay_item_dtbo_show PAGE_SIZE (ov, tr) buf)) = Inl EINVAL)
           = (PAGE_SIZE < blob_length ov) \<and>
         (\<forall>b. dtbo ov = Some b \<longrightarrow> length b \<le> PAGE_SIZE \<longrightarrow>
            dtbocfg_overlay_item_dtbo_show PAGE_SIZE (ov, tr) buf =
              ((ov, tr), Inr (int (length b)),
               map_option (\<lambda>page. b @ drop (length b) page) buf)) \<and>
         (dtbo ov = None \<longrightarrow>
            dtbocfg_overlay_item_dtbo_show PAGE_SIZE (ov, tr) buf = ((ov, tr), Inr 0, buf))"
  using assms
  by (auto simp: blob_inv_def blob_length_def ulong_of_int_nat memcpy_def split: option.splits)

theorem C5_read_too_large_iff_witness:
  "blob_inv (loaded_item ''fpga0'') \<and>
   dtbocfg_overlay_item_dtbo_show 4096 (loaded_item ''fpga0'', []) (Some [0, 0, 0, 0, 0, 0]) =
     ((loaded_item ''fpga0'', []), Inr 4, Some [0xD0, 0x0D, 0xFE, 0xED, 0, 0]) \<and>
   blob_inv ((empty_item ''big'')\<lparr>dtbo := Some (replicate 4097 0), dtbo_size := 4097\<rparr>) \<and>
   fst (snd (dtbocfg_overlay_item_dtbo_show 4096
     ((empty_item ''big'')\<lparr>dtbo := Some (replicate 4097 0), dtbo_size := 4097\<rparr>, []) None))
     = Inl EINVAL \<and>
   blob_inv (empty_item ''fpga0'') \<and>
   dtbocfg_overlay_item_dtbo_show 4096 (empty_item ''fpga0'', []) (Some [1, 2]) =
     ((empty_item ''fpga0'', []), Inr 0, Some [1, 2])"
  using C5_read_too_large_iff [of "loaded_item ''fpga0''" 4096 "[]" "Some [0, 0, 0, 0, 0, 0]"]
    C5_read_too_large_iff
      [of "(empty_item ''big'')\<lparr>dtbo := Some (replicate 4097 0), dtbo_size := 4097\<rparr>" 4096 "[]" None]
    C5_read_too_large_iff [of "empty_item ''fpga0''" 4096 "[]" "Some [1, 2]"]
  by (simp add: blob_inv_def blob_length_def loaded_item_def empty_item_def sample_blob_def)

subsection \<open>C6: writing the status twice\<close>

lemma status_store_enable_applied:
  assumes "0 \<le> id_ov ov" and "fst (kstrtoul K buf 10) = 0" and "snd (kstrtoul K buf 10) \<noteq> 0"
  shows "fst (dtbocfg_overlay_item_status_store K (ov, tr) buf count) = (ov, tr)"
  using assms by (cases "kstrtoul K buf 10") simp

lemma repeated_enable_applied:
  assumes "0 \<le> id_ov ov"
    and "\<forall>w \<in> set writes. fst (kstrtoul K (fst w) 10) = 0 \<and> snd (kstrtoul K (fst w) 10) \<noteq> 0"
  shows "run K P (ov, tr) (map (\<lambda>w. Status_store (fst w) (snd w)) writes) = (ov, tr)"
  using assms unfolding run_def
  by (induction writes)
     (simp_all add: status_store_enable_applied del: dtbocfg_overlay_item_status_store.simps)

text \<open>Claim C6. For every item that holds no id, writing zero to the status returns the
  byte count (for every byte count below \<open>2 ^ 63\<close>, the counts an \<^verbatim>\<open>ssize_t\<close> can
  return) and leaves the item and the trace as they are: no kernel routine is called. For
  every item that holds an id, any number of writes of nonzero numbers leaves the item and the
  trace as they are: no overlay is created again. And along every run of operations on a new
  item, the overlays created with success are the overlays destroyed, followed by at most
  one: there is never a second successful apply before a release.\<close>

theorem C6_set_status_idempotent:
  "(id_ov ov < 0 \<longrightarrow> kstrtoul K buf 10 = (0, 0) \<longrightarrow> count < 2 ^ 63 \<longrightarrow>
      dtbocfg_overlay_item_status_store K (ov, tr) buf count = ((ov, tr), Inr count)) \<and>
   (0 \<le> id_ov ov \<longrightarrow>
    (\<forall>w \<in> set writes. fst (kstrtoul K (fst w) 10) = 0 \<and> snd (kstrtoul K (fst w) 10) \<noteq> 0) \<longrightarrow>
      run K P (ov, tr) (map (\<lambda>w. Status_store (fst w) (snd w)) writes) = (ov, tr)) \<and>
   (\<forall>ops. length (applied (snd (run K P (empty_item name, []) ops)))
            \<le> Suc (length (released (snd (run K P (empty_item name, []) ops)))) \<and>
          prefix (released (snd (run K P (empty_item name, []) ops)))
                 (applied (snd (run K P (empty_item name, []) ops))))"
proof (intro conjI allI impI)
  assume "id_ov ov < 0" and "kstrtoul K buf 10 = (0, 0)" and "count < 2 ^ 63"
  then show "dtbocfg_overlay_item_status_store K (ov, tr) buf count = ((ov, tr), Inr count)"
    by (simp add: return_count_small)
next
  assume "0 \<le> id_ov ov"
    and "\<forall>w \<in> set writes. fst (kstrtoul K (fst w) 10) = 0 \<and> snd (kstrtoul K (fst w) 10) \<noteq> 0"
  then show "run K P (ov, tr) (map (\<lambda>w. Status_store (fst w) (snd w)) writes) = (ov, tr)"
    by (rule repeated_enable_applied)
next
  fix ops
  have "lifecycle_inv (run K P (empty_item name, []) ops)"
    by (rule run_lifecycle) (rule empty_item_lifecycle)
  then show "length (applied (snd (run K P (empty_item name, []) ops)))
            \<le> Suc (length (released (snd (run K P (empty_item name, []) ops))))"
    by (simp add: lifecycle_inv_def)
next
  fix ops
  have "lifecycle_inv (run K P (empty_item name, []) ops)"
    by (rule run_lifecycle) (rule empty_item_lifecycle)
  then show "prefix (released (snd (run K P (empty_item name, []) ops)))
                 (applied (snd (run K P (empty_item name, []) ops)))"
    by (simp add: lifecycle_inv_def)
qed

theorem C6_set_status_idempotent_witness:
  "id_ov (loaded_item ''fpga0'') < 0 \<and> kstrtoul demo_kernel ''0'' 10 = (0, 0) \<and>
   (1 :: nat) < 2 ^ 63 \<and>
   dtbocfg_overlay_item_status_store demo_kernel (loaded_item ''fpga0'', []) ''0'' 1 =
     ((loaded_item ''fpga0'', []), Inr 1) \<and>
   0 \<le> id_ov (applied_item ''fpga0'') \<and>
   kstrtoul demo_kernel ''1'' 10 = (0, 1) \<and> kstrtoul demo_kernel ''2'' 10 = (0, 2) \<and>
   run demo_kernel 4096 (applied_item ''fpga0'', [])
     [Status_store ''1'' 1, Status_store ''2'' 1, Status_store ''1'' 1] = (applied_item ''fpga0'', []) \<and>
   applied (snd (run demo_kernel 4096 (empty_item ''fpga0'', [])
     [Dtbo_store sample_blob, Status_store ''1'' 1])) = [0] \<and>
   released (snd (run demo_kernel 4096 (empty_item ''fpga0'', [])
     [Dtbo_store sample_blob, Status_store ''1'' 1])) = []"
  using C6_set_status_idempotent [of "loaded_item ''fpga0''" demo_kernel "''0''" 1 "[]"
      "[(''1'', 1), (''2'', 1), (''1'', 1)]" 4096 "''fpga0''"]
  unfolding applied_run_state
  by (simp add: run_def demo_kernel_def demo_kstrtoul_def loaded_item_def applied_item_def
      empty_item_def return_count_small)

subsection \<open>C7: destroying an item that holds an id\<close>

text \<open>Claim C7. For every item that holds an id, \<open>dtbocfg_overlay_release\<close> calls
  \<^verbatim>\<open>of_overlay_destroy\<close> with that id once, then frees the blob if there is one, then
  frees the item; the id and the blob pointer are cleared on the way. Along every run of
  operations on a new item the ids destroyed are a prefix of the ids created with success,
  and after the final release the two lists are equal: each successful apply is released
  once, and when the kernel never hands out an id twice, no id is released twice.\<close>

theorem C7_release_once:
  "(0 \<le> id_ov ov \<longrightarrow>
      snd (dtbocfg_overlay_release (ov, tr)) =
        tr @ [OverlayDestroy (id_ov ov)] @ (if dtbo ov \<noteq> None then [KfreeDtbo] else [])
           @ [KfreeOverlay] \<and>
      released (snd (dtbocfg_overlay_release (ov, tr))) = released tr @ [id_ov ov] \<and>
      id_ov (fst (dtbocfg_overlay_release (ov, tr))) = - 1 \<and>
      dtbo (fst (dtbocfg_overlay_release (ov, tr))) = None) \<and>
   (\<forall>ops. prefix (released (snd (run K P (empty_item name, []) ops)))
                 (applied (snd (run K P (empty_item name, []) ops))) \<and>
          released (snd (dtbocfg_overlay_release (run K P (empty_item name, []) ops))) =
          applied (snd (dtbocfg_overlay_release (run K P (empty_item name, []) ops))) \<and>
          (distinct (applied (snd (dtbocfg_overlay_release (run K P (empty_item name, []) ops))))
           \<longrightarrow>
           distinct (released (snd (dtbocfg_overlay_release (run K P (empty_item name, []) ops))))))"
proof (intro conjI allI impI)
  assume held: "0 \<le> id_ov ov"
  show "snd (dtbocfg_overlay_release (ov, tr)) =
        tr @ [OverlayDestroy (id_ov ov)] @ (if dtbo ov \<noteq> None then [KfreeDtbo] else [])
           @ [KfreeOverlay]"
    unfolding release_trace using held by simp
  show "released (snd (dtbocfg_overlay_release (ov, tr))) = released tr @ [id_ov ov]"
    unfolding release_trace using held by (simp add: released_append)
  show "id_ov (fst (dtbocfg_overlay_release (ov, tr))) = - 1"
    using held release_fields[of ov tr] by simp
  show "dtbo (fst (dtbocfg_overlay_release (ov, tr))) = None"
    using release_fields[of ov tr] by simp
next
  fix ops
  have inv: "lifecycle_inv (run K P (empty_item name, []) ops)"
    by (rule run_lifecycle) (rule empty_item_lifecycle)
  then show "prefix (released (snd (run K P (empty_item name, []) ops)))
                 (applied (snd (run K P (empty_item name, []) ops)))"
    by (simp add: lifecycle_inv_def)
  from inv show eq: "released (snd (dtbocfg_overlay_release (run K P (empty_item name, []) ops))) =
          applied (snd (dtbocfg_overlay_release (run K P (empty_item name, []) ops)))"
    by (rule release_balances)
  assume "distinct (applied (snd (dtbocfg_overlay_release (run K P (empty_item name, []) ops))))"
  with eq show "distinct (released (snd (dtbocfg_overlay_release
                                     (run K P (empty_item name, []) ops))))"
    by simp
qed

theorem C7_release_once_witness:
  "0 \<le> id_ov (applied_item ''fpga0'') \<and>
   dtbocfg_overlay_release (applied_item ''fpga0'', []) =
     ((applied_item ''fpga0'')\<lparr>id_ov := - 1, dtbo := None, dtbo_size := 0\<rparr>,
      [OverlayDestroy 7, KfreeDtbo, KfreeOverlay]) \<and>
   released (snd (dtbocfg_overlay_release (applied_item ''fpga0'', []))) = [7] \<and>
   snd (dtbocfg_overlay_release (run demo_kernel 4096 (empty_item ''fpga0'', [])
     [Dtbo_store sample_blob, Status_store ''1'' 1])) =
     [Kmemdup 4 True, Unflatten (Some sample_blob) (Some 1), SetDetached 1, Resolve 1 0,
      OverlayCreate 1 0, OverlayDestroy 0, KfreeDtbo, KfreeOverlay]"
  using C7_release_once [of "applied_item ''fpga0''" "[]" demo_kernel 4096 "''fpga0''"]
  unfolding applied_run_state
  by (simp add: applied_item_def loaded_item_def empty_item_def Let_def)

subsection \<open>C8: a registration that fails half way\<close>

text \<open>Claim C8. When the subsystem registers and the group does not,
  \<open>dtbocfg_module_init\<close> unregisters the subsystem and then returns the status of the
  failed registration. It returns 0 exactly when both registrations gave 0. Whatever was
  registered before, afterwards both are registered when it returned 0, and the subsystem is
  not registered when it registered and the group failed.\<close>

theorem C8_init_unwinds:
  "(configfs_register_subsystem K (tr @ [GroupInit ''device-tree'', GroupInit ''overlays'']) = 0 \<longrightarrow>
    configfs_register_group K
      (tr @ [GroupInit ''device-tree'', GroupInit ''overlays'', RegisterSubsystem 0]) = r \<longrightarrow>
    r \<noteq> 0 \<longrightarrow>
      dtbocfg_module_init K tr =
        (tr @ [GroupInit ''device-tree'', GroupInit ''overlays'', RegisterSubsystem 0,
               RegisterGroup r, UnregisterSubsystem], r)) \<and>
   (snd (dtbocfg_module_init K tr) = 0) =
     (configfs_register_subsystem K (tr @ [GroupInit ''device-tree'', GroupInit ''overlays'']) = 0 \<and>
      configfs_register_group K
        (tr @ [GroupInit ''device-tree'', GroupInit ''overlays'', RegisterSubsystem 0]) = 0) \<and>
   registered (fst (dtbocfg_module_init K tr)) st =
     (if snd (dtbocfg_module_init K tr) = 0 then (True, True)
      else if configfs_register_subsystem K
                (tr @ [GroupInit ''device-tree'', GroupInit ''overlays'']) = 0
      then (False, snd (registered tr st))
      else registered tr st)"
  by (cases "registered tr st")
     (auto simp: dtbocfg_module_init_def Let_def registered_append)

theorem C8_init_unwinds_witness:
  "configfs_register_subsystem no_group_kernel
     [GroupInit ''device-tree'', GroupInit ''overlays''] = 0 \<and>
   configfs_register_group no_group_kernel
     [GroupInit ''device-tree'', GroupInit ''overlays'', RegisterSubsystem 0] = - 12 \<and>
   dtbocfg_module_init no_group_kernel [] =
     ([GroupInit ''device-tree'', GroupInit ''overlays'', RegisterSubsystem 0,
       RegisterGroup (- 12), UnregisterSubsystem], - 12) \<and>
   registered (fst (dtbocfg_module_init no_group_kernel [])) (False, False) = (False, False)"
  using C8_init_unwinds [of no_group_kernel "[]" "- 12" "(False, False)"]
  by (simp add: no_group_kernel_def demo_kernel_def)

subsection \<open>C9: the two show operations\<close>

text \<open>Claim C9. For every item, every trace, every page size and every page, reading the
  blob and reading the status leave the item (id, blob, size, node) and the trace exactly as
  they were, whether the read succeeds or fails.\<close>

theorem C9_show_pure:
  "fst (dtbocfg_overlay_item_dtbo_show PAGE_SIZE s buf) = s \<and>
   fst (dtbocfg_overlay_item_status_show s) = s"
  by (simp add: dtbo_show_state status_show_state)

theorem C9_show_pure_witness:
  "fst (dtbocfg_overlay_item_dtbo_show 2 (applied_item ''fpga0'', [OverlayCreate 1 7]) None)
     = (applied_item ''fpga0'', [OverlayCreate 1 7]) \<and>
   snd (dtbocfg_overlay_item_dtbo_show 2 (applied_item ''fpga0'', [OverlayCreate 1 7]) None)
     = (Inl EINVAL, None) \<and>
   dtbocfg_overlay_item_status_show (applied_item ''fpga0'', [OverlayCreate 1 7])
     = ((applied_item ''fpga0'', [OverlayCreate 1 7]), 2, [CHR ''1'', CHR 0x0A])"
  using C9_show_pure [of 2 "(applied_item ''fpga0'', [OverlayCreate 1 7])" None]
  by (simp add: applied_item_def loaded_item_def empty_item_def sample_blob_def ulong_of_int_def)

subsection \<open>C10: every nonzero number enables\<close>

text \<open>Claim C10. The status text is parsed by \<^verbatim>\<open>kstrtoul\<close> in base 10. Any two
  texts that parse to nonzero numbers have the same effect on the same item and trace, and
  the same result for the same byte count: the apply is tried when no id is held, nothing
  happens otherwise, and the byte count is returned (for every byte count below \<open>2 ^ 63\<close>,
  the counts an \<^verbatim>\<open>ssize_t\<close> can return). Every text that parses to zero releases the
  overlay when an id is held and does nothing otherwise, and returns the byte count likewise.
  A text that does not parse changes nothing and gives \<open>EPERM\<close>.\<close>

theorem C10_status_truthiness:
  "(kstrtoul K buf1 10 = (0, v1) \<longrightarrow> v1 \<noteq> 0 \<longrightarrow> kstrtoul K buf2 10 = (0, v2) \<longrightarrow> v2 \<noteq> 0 \<longrightarrow>
      dtbocfg_overlay_item_status_store K (ov, tr) buf1 count =
      dtbocfg_overlay_item_status_store K (ov, tr) buf2 count \<and>
      fst (dtbocfg_overlay_item_status_store K (ov, tr) buf1 count1) =
      fst (dtbocfg_overlay_item_status_store K (ov, tr) buf2 count2) \<and>
      fst (dtbocfg_overlay_item_status_store K (ov, tr) buf1 count) =
        (if id_ov ov < 0 then fst (dtbocfg_overlay_item_create K (ov, tr)) else (ov, tr)) \<and>
      (count < 2 ^ 63 \<longrightarrow>
         snd (dtbocfg_overlay_item_status_store K (ov, tr) buf1 count) = Inr count)) \<and>
   (kstrtoul K buf 10 = (0, 0) \<longrightarrow>
      fst (dtbocfg_overlay_item_status_store K (ov, tr) buf count) =
        (if 0 \<le> id_ov ov then dtbocfg_overlay_item_release (ov, tr) else (ov, tr)) \<and>
      (count < 2 ^ 63 \<longrightarrow>
         snd (dtbocfg_overlay_item_status_store K (ov, tr) buf count) = Inr count)) \<and>
   (fst (kstrtoul K buf 10) \<noteq> 0 \<longrightarrow>
      dtbocfg_overlay_item_status_store K (ov, tr) buf count = ((ov, tr), Inl EPERM))"
  by (cases "kstrtoul K buf 10")
     (simp add: return_count_small del: dtbocfg_overlay_item_create.simps)

theorem C10_status_truthiness_witness:
  "kstrtoul demo_kernel ''1'' 10 = (0, 1) \<and> kstrtoul demo_kernel ''42'' 10 = (0, 42) \<and>
   dtbocfg_overlay_item_status_store demo_kernel (loaded_item ''fpga0'', []) ''1'' 2 =
   dtbocfg_overlay_item_status_store demo_kernel (loaded_item ''fpga0'', []) ''42'' 2 \<and>
   snd (dtbocfg_overlay_item_status_store demo_kernel (loaded_item ''fpga0'', []) ''42'' 2) = Inr 2 \<and>
   id_ov (fst (fst (dtbocfg_overlay_item_status_store demo_kernel (loaded_item ''fpga0'', []) ''42'' 2)))
     = 0 \<and>
   kstrtoul demo_kernel ''0'' 10 = (0, 0) \<and>
   dtbocfg_overlay_item_status_store demo_kernel (applied_item ''fpga0'', []) ''0'' 1 =
     (((applied_item ''fpga0'')\<lparr>id_ov := - 1\<rparr>, [OverlayDestroy 7]), Inr 1) \<and>
   dtbocfg_overlay_item_status_store demo_kernel (applied_item ''fpga0'', []) ''on'' 2 =
     ((applied_item ''fpga0'', []), Inl EPERM)"
  using C10_status_truthiness [of demo_kernel "''1''" 1 "''42''" 42 "loaded_item ''fpga0''" "[]" 2
      1 2 "''0''"]
    C10_status_truthiness [of demo_kernel "''1''" 1 "''42''" 42 "applied_item ''fpga0''" "[]" 1
      1 2 "''0''"]
  by (simp add: demo_kernel_def demo_kstrtoul_def loaded_item_def applied_item_def empty_item_def
      sample_blob_def Let_def return_count_small)

end
